theory Spec2Isabelle
  imports Main "HOL-Library.Word"
begin

section \<open>The flush policies of the DWRF writer\<close>

text \<open>
  A shallow embedding of \<^verbatim>\<open>velox/dwio/dwrf/writer/FlushPolicy.h\<close>. Each C++ class is a
  record of its data members, each member function a HOL function that takes the
  object first (\<open>this\<close>). A member function that only reads the object returns its result;
  one that writes a member returns the result together with the updated object.
  A private member \<^verbatim>\<open>name_\<close> is the field \<open>name\<close>: an Isabelle constant cannot end in an
  underscore.
\<close>

subsection \<open>Data\<close>

type_synonym uint64_t = "64 word"

text \<open>\<^verbatim>\<open>int64_t\<close>: the 64 bits; \<open>sint\<close> reads them as two's complement.\<close>

type_synonym int64_t = "64 word"

text \<open>
  Modelled from the spec: \<^verbatim>\<open>dwio::common::StripeProgress\<close> is declared in
  \<^verbatim>\<open>velox/dwio/common/FlushPolicy.h\<close>, which is not part of the sources. The header reads
  its members \<^verbatim>\<open>stripeSizeEstimate\<close> and \<^verbatim>\<open>stripeRowCount\<close> and compares them with
  \<^verbatim>\<open>uint64_t\<close> members; the spec gives both as unsigned 64-bit values. The functions below
  take any extension of the record (\<open>'a StripeProgress_scheme\<close>), so whatever further
  members the structure has are covered.
\<close>

record StripeProgress =
  stripeSizeEstimate :: uint64_t
  stripeRowCount :: uint64_t

text \<open>\<^verbatim>\<open>enum class FlushDecision\<close> (lines 24--29).\<close>

datatype FlushDecision =
  SKIP
  | EVALUATE_DICTIONARY
  | FLUSH_DICTIONARY
  | ABANDON_DICTIONARY

text \<open>The data members of \<^verbatim>\<open>DefaultFlushPolicy\<close> (lines 81--83); the first two are const.\<close>

record DefaultFlushPolicy =
  stripeSizeThreshold :: uint64_t
  dictionarySizeThreshold :: uint64_t
  dictionaryAssessmentThreshold :: uint64_t

text \<open>\<^verbatim>\<open>RowsPerStripeFlushPolicy\<close> (line 105): one const vector, no other member.\<close>

record RowsPerStripeFlushPolicy =
  rowsPerStripe :: "uint64_t list"

text \<open>\<^verbatim>\<open>RowThresholdFlushPolicy\<close> (line 131).\<close>

record RowThresholdFlushPolicy =
  rowCountThreshold :: uint64_t

text \<open>
  \<^verbatim>\<open>LambdaFlushPolicy\<close> (line 155) holds a \<^verbatim>\<open>std::function<bool()>\<close>. Invoking it may read
  and write whatever the callable captured and may throw, so it is a function from the
  captured state \<open>'w\<close> to a result and the state afterwards; the result is \<open>Inr b\<close> when
  the call returns \<open>b\<close> and \<open>Inl e\<close> when it throws \<open>e\<close>. An empty \<^verbatim>\<open>std::function\<close> is the
  callable whose every invocation throws \<^verbatim>\<open>std::bad_function_call\<close>.
\<close>

record ('w, 'x) LambdaFlushPolicy =
  lambda :: "'w \<Rightarrow> ('x + bool) \<times> 'w"

subsection \<open>Constructors defined in the header\<close>



subsection \<open>shouldFlush\<close>

text \<open>Lines 59--62: \<^verbatim>\<open>return stripeProgress.stripeSizeEstimate >= stripeSizeThreshold_;\<close>\<close>

definition DefaultFlushPolicy_shouldFlush ::
  "'p DefaultFlushPolicy_scheme \<Rightarrow> 'a StripeProgress_scheme \<Rightarrow> bool" where
  "DefaultFlushPolicy_shouldFlush this stripeProgress =
     (stripeSizeEstimate stripeProgress \<ge> stripeSizeThreshold this)"

text \<open>Lines 115--118: \<^verbatim>\<open>return stripeProgress.stripeRowCount >= rowCountThreshold_;\<close>\<close>

definition RowThresholdFlushPolicy_shouldFlush ::
  "'p RowThresholdFlushPolicy_scheme \<Rightarrow> 'a StripeProgress_scheme \<Rightarrow> bool" where
  "RowThresholdFlushPolicy_shouldFlush this stripeProgress =
     (stripeRowCount stripeProgress \<ge> rowCountThreshold this)"

text \<open>
  Lines 140--142: \<^verbatim>\<open>return lambda_();\<close> with the argument unused. The third argument is
  the captured state before the call.
\<close>

definition LambdaFlushPolicy_shouldFlush ::
  "('w, 'x) LambdaFlushPolicy \<Rightarrow> 'a StripeProgress_scheme \<Rightarrow> 'w \<Rightarrow> ('x + bool) \<times> 'w" where
  "LambdaFlushPolicy_shouldFlush this unused w = lambda this w"

subsection \<open>shouldFlushDictionary of the three policies that define it in the header\<close>

text \<open>
  Lines 94--100, 120--126 and 144--150: every parameter is unnamed and the body is
  \<^verbatim>\<open>return FlushDecision::SKIP;\<close>. The writer context is not read, so its type is a
  parameter.
\<close>

definition RowsPerStripeFlushPolicy_shouldFlushDictionary ::
  "RowsPerStripeFlushPolicy \<Rightarrow> bool \<Rightarrow> bool \<Rightarrow> 'a StripeProgress_scheme \<Rightarrow> 'ctx
     \<Rightarrow> FlushDecision" where
  "RowsPerStripeFlushPolicy_shouldFlushDictionary this flushStripe overMemoryBudget
     stripeProgress context = SKIP"

definition RowThresholdFlushPolicy_shouldFlushDictionary ::
  "RowThresholdFlushPolicy \<Rightarrow> bool \<Rightarrow> bool \<Rightarrow> 'a StripeProgress_scheme \<Rightarrow> 'ctx
     \<Rightarrow> FlushDecision" where
  "RowThresholdFlushPolicy_shouldFlushDictionary this flushStripe overMemoryBudget
     stripeProgress context = SKIP"

definition LambdaFlushPolicy_shouldFlushDictionary ::
  "('w, 'x) LambdaFlushPolicy \<Rightarrow> bool \<Rightarrow> bool \<Rightarrow> 'a StripeProgress_scheme \<Rightarrow> 'ctx
     \<Rightarrow> FlushDecision" where
  "LambdaFlushPolicy_shouldFlushDictionary this flushStripe overMemoryBudget
     stripeProgress unused = SKIP"

subsection \<open>onClose\<close>

text \<open>
  Lines 76, 102, 128 and 152: \<^verbatim>\<open>void onClose() override {}\<close> in all four classes. The
  function takes no argument, has no statement that could throw and writes no member:
  it returns \<open>Inr\<close> of the unchanged object for any exception type \<open>'e\<close>.
\<close>

definition DefaultFlushPolicy_onClose :: "DefaultFlushPolicy \<Rightarrow> 'e + DefaultFlushPolicy" where
  "DefaultFlushPolicy_onClose this = Inr this"

definition RowsPerStripeFlushPolicy_onClose ::
  "RowsPerStripeFlushPolicy \<Rightarrow> 'e + RowsPerStripeFlushPolicy" where
  "RowsPerStripeFlushPolicy_onClose this = Inr this"

definition RowThresholdFlushPolicy_onClose ::
  "RowThresholdFlushPolicy \<Rightarrow> 'e + RowThresholdFlushPolicy" where
  "RowThresholdFlushPolicy_onClose this = Inr this"

definition LambdaFlushPolicy_onClose ::
  "('w, 'x) LambdaFlushPolicy \<Rightarrow> 'e + ('w, 'x) LambdaFlushPolicy" where
  "LambdaFlushPolicy_onClose this = Inr this"

text \<open>
  One call after another on the same object: the second call runs on the object the
  first one left, unless the first one threw.
\<close>

definition andThen :: "'e + 's \<Rightarrow> ('s \<Rightarrow> 'e + 's) \<Rightarrow> 'e + 's" where
  "andThen r f = (case r of Inl e \<Rightarrow> Inl e | Inr s \<Rightarrow> f s)"

subsection \<open>Threshold-based policy: the dictionary assessment\<close>

text \<open>
  Modelled from the spec: \<^verbatim>\<open>DefaultFlushPolicy::getDictionaryAssessmentIncrement\<close> is declared
  in line 79 and its body is not in the header. The spec says the assessment cursor
  advances by a fixed increment derived from the stripe-size threshold \<open>T\<close> and leaves the
  formula open, so the formula is the parameter \<open>derive\<close>.
\<close>

definition getDictionaryAssessmentIncrement ::
  "(uint64_t \<Rightarrow> uint64_t) \<Rightarrow> 'p DefaultFlushPolicy_scheme \<Rightarrow> uint64_t" where
  "getDictionaryAssessmentIncrement derive this = derive (stripeSizeThreshold this)"

text \<open>
  Modelled from the spec: the formula the spec recommends, one quarter of the stripe-size
  threshold. Only the concrete instances below use it.
\<close>

definition oneQuarter :: "uint64_t \<Rightarrow> uint64_t" where
  "oneQuarter T = T div 4"

text \<open>
  Modelled from the spec: the primitive form of
  \<^verbatim>\<open>DefaultFlushPolicy::shouldFlushDictionary\<close> is declared in lines 64--68 and its body is
  not in the header. The spec gives four steps: \<open>flushStripe\<close> returns
  \<open>FLUSH_DICTIONARY\<close>; else \<open>overMemoryBudget\<close> returns \<open>ABANDON_DICTIONARY\<close>; else a
  stripe size estimate that has reached the assessment cursor advances the cursor by the
  fixed increment and returns \<open>EVALUATE_DICTIONARY\<close>; else \<open>SKIP\<close>. The cursor is the member
  \<^verbatim>\<open>dictionaryAssessmentThreshold_\<close> (line 83), a \<^verbatim>\<open>uint64_t\<close>, so the addition wraps at
  \<open>2 ^ 64\<close>. The spec's steps do not read the fourth argument.
\<close>

definition DefaultFlushPolicy_shouldFlushDictionary ::
  "(uint64_t \<Rightarrow> uint64_t) \<Rightarrow> DefaultFlushPolicy \<Rightarrow> bool \<Rightarrow> bool \<Rightarrow> 'a StripeProgress_scheme
     \<Rightarrow> int64_t \<Rightarrow> FlushDecision \<times> DefaultFlushPolicy" where
  "DefaultFlushPolicy_shouldFlushDictionary derive this flushStripe overMemoryBudget
     stripeProgress dictionaryMemoryUsage =
     (if flushStripe then (FLUSH_DICTIONARY, this)
      else if overMemoryBudget then (ABANDON_DICTIONARY, this)
      else if stripeSizeEstimate stripeProgress \<ge> dictionaryAssessmentThreshold this then
        (EVALUATE_DICTIONARY,
         this\<lparr>dictionaryAssessmentThreshold :=
           dictionaryAssessmentThreshold this + getDictionaryAssessmentIncrement derive this\<rparr>)
      else (SKIP, this))"

text \<open>
  A policy object with the thresholds of the spec's example (\<open>T = 1000\<close>, \<open>D = 500\<close>)
  and the cursor at the first quarter of \<open>T\<close>.
\<close>

definition examplePolicy :: DefaultFlushPolicy where
  "examplePolicy = \<lparr>stripeSizeThreshold = 1000, dictionarySizeThreshold = 500,
     dictionaryAssessmentThreshold = 250\<rparr>"

subsection \<open>Sequences of shouldFlush calls within one stripe\<close>

text \<open>
  The snapshots of one stripe, in the order the writer takes them: no field of a later
  snapshot is below that field of an earlier one.
\<close>

definition monotoneSnapshots :: "'a StripeProgress_scheme list \<Rightarrow> bool" where
  "monotoneSnapshots snapshots =
     sorted_wrt (\<lambda>earlier later.
        stripeSizeEstimate earlier \<le> stripeSizeEstimate later \<and>
        stripeRowCount earlier \<le> stripeRowCount later) snapshots"

text \<open>Once a result is true, every later result is true.\<close>

definition noFlipFlop :: "bool list \<Rightarrow> bool" where
  "noFlipFlop results = sorted_wrt (\<lambda>earlier later. earlier \<longrightarrow> later) results"

definition returnedTrue :: "'x + bool \<Rightarrow> bool" where
  "returnedTrue r = (r = Inr True)"

text \<open>
  \<^verbatim>\<open>LambdaFlushPolicy::shouldFlush\<close> called once per snapshot, in order; each call starts
  from the captured state the previous one left, also after a call that threw.
\<close>

fun LambdaFlushPolicy_shouldFlush_calls ::
  "('w, 'x) LambdaFlushPolicy \<Rightarrow> 'a StripeProgress_scheme list \<Rightarrow> 'w
     \<Rightarrow> ('x + bool) list \<times> 'w" where
  "LambdaFlushPolicy_shouldFlush_calls this [] w = ([], w)"
| "LambdaFlushPolicy_shouldFlush_calls this (s # ss) w =
     (case LambdaFlushPolicy_shouldFlush this s w of
        (r, w') \<Rightarrow>
          (case LambdaFlushPolicy_shouldFlush_calls this ss w' of
             (rs, w'') \<Rightarrow> (r # rs, w'')))"

text \<open>The callable invoked \<open>n\<close> times in a row, with no policy in between.\<close>

fun invocations :: "('w \<Rightarrow> ('x + bool) \<times> 'w) \<Rightarrow> nat \<Rightarrow> 'w \<Rightarrow> ('x + bool) list \<times> 'w" where
  "invocations f 0 w = ([], w)"
| "invocations f (Suc n) w =
     (case f w of
        (r, w') \<Rightarrow> (case invocations f n w' of (rs, w'') \<Rightarrow> (r # rs, w'')))"

text \<open>
  A callable instrumented with a counter of its invocations: the counter goes up by one
  each time the callable runs, whether it returns or throws.
\<close>

definition counted :: "('w \<Rightarrow> ('x + bool) \<times> 'w) \<Rightarrow> nat \<times> 'w \<Rightarrow> ('x + bool) \<times> (nat \<times> 'w)" where
  "counted f = (\<lambda>(n, w). case f w of (r, w') \<Rightarrow> (r, (Suc n, w')))"

text \<open>
  Two callables for concrete instances. The first is
  \<^verbatim>\<open>[&count] { return count++ == 0; }\<close>: true on its first invocation only. The second
  is an empty \<^verbatim>\<open>std::function\<close>.
\<close>

definition firstCallOnly :: "nat \<Rightarrow> (unit + bool) \<times> nat" where
  "firstCallOnly count = (Inr (count = 0), Suc count)"

definition alwaysThrows :: "nat \<Rightarrow> (string + bool) \<times> nat" where
  "alwaysThrows count = (Inl ''bad_function_call'', count)"

text \<open>Four snapshots of a growing stripe.\<close>

definition growingStripe :: "StripeProgress list" where
  "growingStripe =
     [\<lparr>stripeSizeEstimate = 0, stripeRowCount = 0\<rparr>,
      \<lparr>stripeSizeEstimate = 999, stripeRowCount = 99\<rparr>,
      \<lparr>stripeSizeEstimate = 1000, stripeRowCount = 100\<rparr>,
      \<lparr>stripeSizeEstimate = 1500, stripeRowCount = 150\<rparr>]"

section \<open>Properties\<close>

subsection \<open>Threshold-based policy: shouldFlush\<close>

text \<open>
  C2. For the threshold-based (default) policy with stripe-size threshold \<open>T\<close>,
  \<open>shouldFlush\<close> of a snapshot is true exactly when the snapshot's
  \<open>stripeSizeEstimate\<close>, read as an unsigned number, is at least \<open>T\<close>.
\<close>

theorem DefaultFlushPolicy_shouldFlush_iff:
  "DefaultFlushPolicy_shouldFlush this stripeProgress \<longleftrightarrow>
     unat (stripeSizeThreshold this) \<le> unat (stripeSizeEstimate stripeProgress)"
  by (simp add: DefaultFlushPolicy_shouldFlush_def word_le_nat_alt)

subsection \<open>Fixed row-count-threshold policy: shouldFlush\<close>

text \<open>
  C7. For the fixed row-count-threshold policy with threshold \<open>R\<close>, \<open>shouldFlush\<close> of
  a snapshot is true exactly when the snapshot's \<open>stripeRowCount\<close>, read as an unsigned
  number, is at least \<open>R\<close>.
\<close>

theorem RowThresholdFlushPolicy_shouldFlush_iff:
  "RowThresholdFlushPolicy_shouldFlush this stripeProgress \<longleftrightarrow>
     unat (rowCountThreshold this) \<le> unat (stripeRowCount stripeProgress)"
  by (simp add: RowThresholdFlushPolicy_shouldFlush_def word_le_nat_alt)

subsection \<open>What shouldFlush reads\<close>

text \<open>
  C10. The threshold-based policy's \<open>shouldFlush\<close> depends on the snapshot only through
  \<open>stripeSizeEstimate\<close> and on the policy only through its stripe-size threshold: two
  runs that agree on these return the same result, whatever the row counts, the other
  members of the snapshots and the rest of the two policy objects (the dictionary
  threshold and the assessment cursor) are. Likewise the fixed row-count-threshold
  policy's \<open>shouldFlush\<close> depends only on \<open>stripeRowCount\<close> and the row-count threshold.
\<close>

theorem shouldFlush_noninterference:
  "(stripeSizeEstimate s1 = stripeSizeEstimate s2 \<and>
    stripeSizeThreshold d1 = stripeSizeThreshold d2 \<longrightarrow>
      DefaultFlushPolicy_shouldFlush d1 s1 = DefaultFlushPolicy_shouldFlush d2 s2) \<and>
   (stripeRowCount s1 = stripeRowCount s2 \<and>
    rowCountThreshold r1 = rowCountThreshold r2 \<longrightarrow>
      RowThresholdFlushPolicy_shouldFlush r1 s1 = RowThresholdFlushPolicy_shouldFlush r2 s2)"
  by (simp add: DefaultFlushPolicy_shouldFlush_def RowThresholdFlushPolicy_shouldFlush_def)

theorem shouldFlush_noninterference_witness:
  "DefaultFlushPolicy_shouldFlush
     \<lparr>stripeSizeThreshold = 1000, dictionarySizeThreshold = 500,
      dictionaryAssessmentThreshold = 250\<rparr>
     \<lparr>stripeSizeEstimate = 1200, stripeRowCount = 3\<rparr> =
   DefaultFlushPolicy_shouldFlush
     \<lparr>stripeSizeThreshold = 1000, dictionarySizeThreshold = 64,
      dictionaryAssessmentThreshold = 750\<rparr>
     \<lparr>stripeSizeEstimate = 1200, stripeRowCount = 90000\<rparr> \<and>
   RowThresholdFlushPolicy_shouldFlush \<lparr>rowCountThreshold = 100\<rparr>
     \<lparr>stripeSizeEstimate = 1, stripeRowCount = 100\<rparr> =
   RowThresholdFlushPolicy_shouldFlush \<lparr>rowCountThreshold = 100\<rparr>
     \<lparr>stripeSizeEstimate = 123456, stripeRowCount = 100\<rparr>"
  using shouldFlush_noninterference [of
      "\<lparr>stripeSizeEstimate = 1200, stripeRowCount = 3\<rparr>"
      "\<lparr>stripeSizeEstimate = 1200, stripeRowCount = 90000\<rparr>"
      "\<lparr>stripeSizeThreshold = 1000, dictionarySizeThreshold = 500,
        dictionaryAssessmentThreshold = 250\<rparr>"
      "\<lparr>stripeSizeThreshold = 1000, dictionarySizeThreshold = 64,
        dictionaryAssessmentThreshold = 750\<rparr>"
      "\<lparr>rowCountThreshold = 100\<rparr>" "\<lparr>rowCountThreshold = 100\<rparr>"]
    shouldFlush_noninterference [of
      "\<lparr>stripeSizeEstimate = 1, stripeRowCount = 100\<rparr>"
      "\<lparr>stripeSizeEstimate = 123456, stripeRowCount = 100\<rparr>"
      "\<lparr>stripeSizeThreshold = 1000, dictionarySizeThreshold = 500,
        dictionaryAssessmentThreshold = 250\<rparr>"
      "\<lparr>stripeSizeThreshold = 1000, dictionarySizeThreshold = 64,
        dictionaryAssessmentThreshold = 750\<rparr>"
      "\<lparr>rowCountThreshold = 100\<rparr>" "\<lparr>rowCountThreshold = 100\<rparr>"]
  by simp

subsection \<open>Predicate-based policy: shouldFlush\<close>

text \<open>
  C8. A call of the predicate-based policy's \<open>shouldFlush\<close> is one invocation of the
  stored callable: it returns the callable's result and leaves the captured state as
  that one invocation leaves it; the snapshot makes no difference; a callable that
  counts its invocations counts exactly one more; and when the callable throws \<open>e\<close>,
  the call throws the same \<open>e\<close>.
\<close>

theorem LambdaFlushPolicy_shouldFlush_invokes_once:
  "LambdaFlushPolicy_shouldFlush this stripeProgress w = lambda this w \<and>
   LambdaFlushPolicy_shouldFlush this stripeProgress w =
     LambdaFlushPolicy_shouldFlush this stripeProgress' w \<and>
   LambdaFlushPolicy_shouldFlush \<lparr>lambda = counted f\<rparr> stripeProgress (n, v) =
     (fst (f v), (Suc n, snd (f v))) \<and>
   (\<forall>e w'. lambda this w = (Inl e, w') \<longrightarrow>
      LambdaFlushPolicy_shouldFlush this stripeProgress w = (Inl e, w'))"
  by (simp add: LambdaFlushPolicy_shouldFlush_def counted_def split: prod.splits)

theorem LambdaFlushPolicy_shouldFlush_invokes_once_witness:
  "LambdaFlushPolicy_shouldFlush \<lparr>lambda = counted firstCallOnly\<rparr>
     \<lparr>stripeSizeEstimate = 5, stripeRowCount = 1\<rparr> (0, 0) = (Inr True, (1, 1)) \<and>
   LambdaFlushPolicy_shouldFlush \<lparr>lambda = counted firstCallOnly\<rparr>
     \<lparr>stripeSizeEstimate = 5, stripeRowCount = 1\<rparr> (0, 0) =
   LambdaFlushPolicy_shouldFlush \<lparr>lambda = counted firstCallOnly\<rparr>
     \<lparr>stripeSizeEstimate = 77, stripeRowCount = 9\<rparr> (0, 0) \<and>
   LambdaFlushPolicy_shouldFlush \<lparr>lambda = alwaysThrows\<rparr>
     \<lparr>stripeSizeEstimate = 5, stripeRowCount = 1\<rparr> 3 = (Inl ''bad_function_call'', 3)"
  using
    LambdaFlushPolicy_shouldFlush_invokes_once [of "\<lparr>lambda = counted firstCallOnly\<rparr>"
      "\<lparr>stripeSizeEstimate = 5, stripeRowCount = 1\<rparr>" "(0, 0)"
      "\<lparr>stripeSizeEstimate = 77, stripeRowCount = 9\<rparr>" firstCallOnly 0 0]
    LambdaFlushPolicy_shouldFlush_invokes_once [of "\<lparr>lambda = alwaysThrows\<rparr>"
      "\<lparr>stripeSizeEstimate = 5, stripeRowCount = 1\<rparr>" 3
      "\<lparr>stripeSizeEstimate = 5, stripeRowCount = 1\<rparr>" firstCallOnly 0 0]
  by (simp add: firstCallOnly_def alwaysThrows_def counted_def LambdaFlushPolicy_shouldFlush_def)

subsection \<open>onClose\<close>

text \<open>
  C9. For each of the four policies \<open>onClose\<close> returns normally for every object and
  leaves the object as it was, and two calls in a row do what one call does. It has no
  argument, so nothing of the writer is read.
\<close>

theorem onClose_never_faults_idempotent:
  "DefaultFlushPolicy_onClose sizePolicy = Inr sizePolicy \<and>
   andThen (DefaultFlushPolicy_onClose sizePolicy) DefaultFlushPolicy_onClose =
     DefaultFlushPolicy_onClose sizePolicy \<and>
   RowsPerStripeFlushPolicy_onClose planPolicy = Inr planPolicy \<and>
   andThen (RowsPerStripeFlushPolicy_onClose planPolicy) RowsPerStripeFlushPolicy_onClose =
     RowsPerStripeFlushPolicy_onClose planPolicy \<and>
   RowThresholdFlushPolicy_onClose rowPolicy = Inr rowPolicy \<and>
   andThen (RowThresholdFlushPolicy_onClose rowPolicy) RowThresholdFlushPolicy_onClose =
     RowThresholdFlushPolicy_onClose rowPolicy \<and>
   LambdaFlushPolicy_onClose lambdaPolicy = Inr lambdaPolicy \<and>
   andThen (LambdaFlushPolicy_onClose lambdaPolicy) LambdaFlushPolicy_onClose =
     LambdaFlushPolicy_onClose lambdaPolicy"
  by (simp add: DefaultFlushPolicy_onClose_def RowsPerStripeFlushPolicy_onClose_def
      RowThresholdFlushPolicy_onClose_def LambdaFlushPolicy_onClose_def andThen_def)

subsection \<open>shouldFlushDictionary of the row-sequence, row-threshold and predicate policies\<close>

text \<open>
  C4 (amended). The row-sequence, fixed row-count-threshold and predicate-based policies
  return \<open>SKIP\<close> from \<open>shouldFlushDictionary\<close> for every combination of arguments, also
  when \<open>flushStripe\<close> is true. Returning \<open>FLUSH_DICTIONARY\<close> for \<open>flushStripe = true\<close> is
  particular to the threshold-based policy.
\<close>

theorem shouldFlushDictionary_always_SKIP:
  "RowsPerStripeFlushPolicy_shouldFlushDictionary planPolicy flushStripe overMemoryBudget
     stripeProgress context = SKIP \<and>
   RowThresholdFlushPolicy_shouldFlushDictionary rowPolicy flushStripe overMemoryBudget
     stripeProgress context = SKIP \<and>
   LambdaFlushPolicy_shouldFlushDictionary lambdaPolicy flushStripe overMemoryBudget
     stripeProgress context = SKIP"
  by (simp add: RowsPerStripeFlushPolicy_shouldFlushDictionary_def
      RowThresholdFlushPolicy_shouldFlushDictionary_def
      LambdaFlushPolicy_shouldFlushDictionary_def)

text \<open>
  The claim as it was stated, for every policy variant, fails at the fixed
  row-count-threshold policy with \<open>R = 100\<close>.
\<close>

theorem flushStripe_true_returns_SKIP:
  "RowThresholdFlushPolicy_shouldFlushDictionary \<lparr>rowCountThreshold = 100\<rparr> True False
     \<lparr>stripeSizeEstimate = 0, stripeRowCount = 0\<rparr> () \<noteq> FLUSH_DICTIONARY"
  by (simp add: RowThresholdFlushPolicy_shouldFlushDictionary_def)

subsection \<open>Construction\<close>



subsection \<open>No flip-flop of shouldFlush within a stripe\<close>

lemma Lambda_calls_invocations:
  "LambdaFlushPolicy_shouldFlush_calls this snapshots w =
   invocations (lambda this) (length snapshots) w"
  by (induction snapshots arbitrary: w) (simp_all add: LambdaFlushPolicy_shouldFlush_def)

lemma noFlipFlop_threshold:
  fixes field :: "'a StripeProgress_scheme \<Rightarrow> uint64_t"
  assumes "sorted_wrt (\<lambda>earlier later. field earlier \<le> field later) snapshots"
  shows "noFlipFlop (map (\<lambda>s. field s \<ge> t) snapshots)"
  unfolding noFlipFlop_def sorted_wrt_map
  using assms by (rule sorted_wrt_mono_rel [rotated]) auto

text \<open>
  C3 (amended). Over the monotone snapshots of one stripe, the threshold-based and the
  fixed row-count-threshold policy never go back from true to false. The predicate-based
  policy returns, call by call, what successive invocations of its callable return, so
  it has the property exactly when the callable's own results never go from true to
  false. The row-sequence policy's \<open>shouldFlush\<close> is declared in the header without a
  body; nothing is stated about it.
\<close>

theorem shouldFlush_no_flip_flop:
  "(monotoneSnapshots snapshots \<longrightarrow>
      noFlipFlop (map (DefaultFlushPolicy_shouldFlush sizePolicy) snapshots)) \<and>
   (monotoneSnapshots snapshots \<longrightarrow>
      noFlipFlop (map (RowThresholdFlushPolicy_shouldFlush rowPolicy) snapshots)) \<and>
   fst (LambdaFlushPolicy_shouldFlush_calls lambdaPolicy snapshots w) =
     fst (invocations (lambda lambdaPolicy) (length snapshots) w)"
proof (intro conjI impI)
  assume "monotoneSnapshots snapshots"
  then have "sorted_wrt (\<lambda>earlier later. stripeSizeEstimate earlier \<le> stripeSizeEstimate later)
      snapshots"
    unfolding monotoneSnapshots_def by (rule sorted_wrt_mono_rel [rotated]) simp
  from noFlipFlop_threshold [OF this, of "stripeSizeThreshold sizePolicy"]
  show "noFlipFlop (map (DefaultFlushPolicy_shouldFlush sizePolicy) snapshots)"
    by (simp add: DefaultFlushPolicy_shouldFlush_def [abs_def])
next
  assume "monotoneSnapshots snapshots"
  then have "sorted_wrt (\<lambda>earlier later. stripeRowCount earlier \<le> stripeRowCount later)
      snapshots"
    unfolding monotoneSnapshots_def by (rule sorted_wrt_mono_rel [rotated]) simp
  from noFlipFlop_threshold [OF this, of "rowCountThreshold rowPolicy"]
  show "noFlipFlop (map (RowThresholdFlushPolicy_shouldFlush rowPolicy) snapshots)"
    by (simp add: RowThresholdFlushPolicy_shouldFlush_def [abs_def])
next
  show "fst (LambdaFlushPolicy_shouldFlush_calls lambdaPolicy snapshots w) =
     fst (invocations (lambda lambdaPolicy) (length snapshots) w)"
    by (simp only: Lambda_calls_invocations)
qed

theorem shouldFlush_no_flip_flop_witness:
  "monotoneSnapshots growingStripe \<and>
   map (DefaultFlushPolicy_shouldFlush
         \<lparr>stripeSizeThreshold = 1000, dictionarySizeThreshold = 500,
          dictionaryAssessmentThreshold = 250\<rparr>) growingStripe = [False, False, True, True] \<and>
   noFlipFlop (map (DefaultFlushPolicy_shouldFlush
         \<lparr>stripeSizeThreshold = 1000, dictionarySizeThreshold = 500,
          dictionaryAssessmentThreshold = 250\<rparr>) growingStripe) \<and>
   noFlipFlop (map (RowThresholdFlushPolicy_shouldFlush \<lparr>rowCountThreshold = 100\<rparr>)
         growingStripe) \<and>
   fst (LambdaFlushPolicy_shouldFlush_calls \<lparr>lambda = firstCallOnly\<rparr> growingStripe 0) =
     fst (invocations firstCallOnly 4 0)"
proof -
  have m: "monotoneSnapshots growingStripe"
    by (simp add: monotoneSnapshots_def growingStripe_def)
  have v: "map (DefaultFlushPolicy_shouldFlush
         \<lparr>stripeSizeThreshold = 1000, dictionarySizeThreshold = 500,
          dictionaryAssessmentThreshold = 250\<rparr>) growingStripe = [False, False, True, True]"
    by (simp add: DefaultFlushPolicy_shouldFlush_def growingStripe_def)
  have n: "length growingStripe = 4"
    by (simp add: growingStripe_def)
  from m v n
    shouldFlush_no_flip_flop [of growingStripe
      "\<lparr>stripeSizeThreshold = 1000, dictionarySizeThreshold = 500,
        dictionaryAssessmentThreshold = 250\<rparr>"
      "\<lparr>rowCountThreshold = 100\<rparr>" "\<lparr>lambda = firstCallOnly\<rparr>" 0]
  show ?thesis by simp
qed

text \<open>
  The predicate-based policy with a callable that is true on its first invocation only:
  the snapshots grow, the results are true and then false.
\<close>

theorem predicate_policy_flip_flops:
  "monotoneSnapshots growingStripe \<and>
   fst (LambdaFlushPolicy_shouldFlush_calls \<lparr>lambda = firstCallOnly\<rparr> growingStripe 0) =
     [Inr True, Inr False, Inr False, Inr False] \<and>
   \<not> noFlipFlop (map returnedTrue
        (fst (LambdaFlushPolicy_shouldFlush_calls \<lparr>lambda = firstCallOnly\<rparr> growingStripe 0)))"
  by (simp add: monotoneSnapshots_def growingStripe_def noFlipFlop_def returnedTrue_def
      LambdaFlushPolicy_shouldFlush_def firstCallOnly_def)

subsection \<open>Threshold-based policy: precedence of the dictionary decision\<close>

text \<open>
  C1. The threshold-based policy's \<open>shouldFlushDictionary\<close> decides in this order, for
  every input: \<open>flushStripe\<close> gives \<open>FLUSH_DICTIONARY\<close>; otherwise \<open>overMemoryBudget\<close>
  gives \<open>ABANDON_DICTIONARY\<close>; otherwise a stripe size estimate at or above the
  assessment cursor gives \<open>EVALUATE_DICTIONARY\<close> and moves the cursor up by the fixed
  increment; otherwise the result is \<open>SKIP\<close>. Only the third case changes the object.
\<close>

theorem shouldFlushDictionary_precedence:
  "(flushStripe \<longrightarrow>
      DefaultFlushPolicy_shouldFlushDictionary derive this flushStripe overMemoryBudget
        stripeProgress dictionaryMemoryUsage = (FLUSH_DICTIONARY, this)) \<and>
   (\<not> flushStripe \<and> overMemoryBudget \<longrightarrow>
      DefaultFlushPolicy_shouldFlushDictionary derive this flushStripe overMemoryBudget
        stripeProgress dictionaryMemoryUsage = (ABANDON_DICTIONARY, this)) \<and>
   (\<not> flushStripe \<and> \<not> overMemoryBudget \<and>
    unat (dictionaryAssessmentThreshold this) \<le> unat (stripeSizeEstimate stripeProgress) \<longrightarrow>
      DefaultFlushPolicy_shouldFlushDictionary derive this flushStripe overMemoryBudget
        stripeProgress dictionaryMemoryUsage =
      (EVALUATE_DICTIONARY,
       this\<lparr>dictionaryAssessmentThreshold :=
         dictionaryAssessmentThreshold this + getDictionaryAssessmentIncrement derive this\<rparr>)) \<and>
   (\<not> flushStripe \<and> \<not> overMemoryBudget \<and>
    unat (stripeSizeEstimate stripeProgress) < unat (dictionaryAssessmentThreshold this) \<longrightarrow>
      DefaultFlushPolicy_shouldFlushDictionary derive this flushStripe overMemoryBudget
        stripeProgress dictionaryMemoryUsage = (SKIP, this))"
  by (simp add: DefaultFlushPolicy_shouldFlushDictionary_def word_le_nat_alt)

theorem shouldFlushDictionary_precedence_witness:
  "DefaultFlushPolicy_shouldFlushDictionary oneQuarter examplePolicy True True
     \<lparr>stripeSizeEstimate = 600, stripeRowCount = 7\<rparr> 0 = (FLUSH_DICTIONARY, examplePolicy) \<and>
   DefaultFlushPolicy_shouldFlushDictionary oneQuarter examplePolicy False True
     \<lparr>stripeSizeEstimate = 600, stripeRowCount = 7\<rparr> 0 = (ABANDON_DICTIONARY, examplePolicy) \<and>
   DefaultFlushPolicy_shouldFlushDictionary oneQuarter examplePolicy False False
     \<lparr>stripeSizeEstimate = 250, stripeRowCount = 7\<rparr> 0 =
     (EVALUATE_DICTIONARY, examplePolicy\<lparr>dictionaryAssessmentThreshold := 500\<rparr>) \<and>
   DefaultFlushPolicy_shouldFlushDictionary oneQuarter examplePolicy False False
     \<lparr>stripeSizeEstimate = 249, stripeRowCount = 7\<rparr> 0 = (SKIP, examplePolicy)"
  using
    shouldFlushDictionary_precedence [of True oneQuarter examplePolicy True
      "\<lparr>stripeSizeEstimate = 600, stripeRowCount = 7\<rparr>" 0]
    shouldFlushDictionary_precedence [of False oneQuarter examplePolicy True
      "\<lparr>stripeSizeEstimate = 600, stripeRowCount = 7\<rparr>" 0]
    shouldFlushDictionary_precedence [of False oneQuarter examplePolicy False
      "\<lparr>stripeSizeEstimate = 250, stripeRowCount = 7\<rparr>" 0]
    shouldFlushDictionary_precedence [of False oneQuarter examplePolicy False
      "\<lparr>stripeSizeEstimate = 249, stripeRowCount = 7\<rparr>" 0]
  by (simp add: examplePolicy_def getDictionaryAssessmentIncrement_def oneQuarter_def)

end
